theory Spec2Isabelle
  imports Complex_Main "HOL-Library.AList"
begin

section \<open>Binance Futures testnet order client: a model of \<open>main.py\<close>\<close>

text \<open>
  The program parses its command line, resolves the API credentials, builds the request
  payload of one MARKET or LIMIT order, sends it once and maps the outcome to an exit
  status. The model follows \<open>main.py\<close> function by function.

  What lies outside \<open>main.py\<close> is a parameter of the model, collected in the record
  \<open>world\<close>: the process environment (\<open>os.getenv\<close>), the constructor of the library's
  \<open>Client\<close> and its method \<open>futures_create_order\<close>, either of which may raise any
  exception, Python's \<open>float\<close> conversion of a string, and \<open>str.upper\<close>. A Python string
  is the list of the bytes of its UTF-8 encoding; a Python float is a real number (no
  NaN, no infinity). The model starts where \<open>main\<close> is called: the module has been
  imported, so \<open>LOGGER\<close> is set up and the log file is open.
\<close>

subsection \<open>Values, dictionaries, exceptions\<close>

text \<open>
  A \<open>Dict[str, Any]\<close> is an association list in insertion order, as a Python dict
  keeps it. \<open>dict.update\<close> replaces the value of a key that is present and appends a new
  key at the end, which is what \<open>AList.update\<close> does.
\<close>

datatype jvalue = JStr string | JNum real | JInt int | JNull

type_synonym jdict = "(string \<times> jvalue) list"

fun dict_update :: "jdict \<Rightarrow> jdict \<Rightarrow> jdict" where
  "dict_update d [] = d"
| "dict_update d ((k, v) # kvs) = dict_update (AList.update k v d) kvs"

text \<open>
  Exceptions, by the classes that \<open>main.py\<close> tells apart. \<open>ValueError\<close> stands for that
  class and its subclasses and carries the text of \<open>str(exc)\<close>, as do the two classes of
  the client library. \<open>OtherException\<close> is an exception of any other subclass of
  \<open>Exception\<close> (a network error of the transport, a \<open>TypeError\<close>, ...), given by a
  description of it.
\<close>

datatype api_exception = BinanceAPIException string | BinanceOrderException string

datatype exc = ValueError string | Remote api_exception | OtherException string

datatype arg_error = ArgumentTypeError string

datatype sys_exit = SystemExit int

subsection \<open>The outside world\<close>

text \<open>
  \<open>client_init api_key api_secret\<close> is the exception that
  \<open>Client(api_key, api_secret, base_url=TESTNET_BASE_URL)\<close> raises, if it raises one;
  \<open>futures_create_order\<close> answers a request with a response or raises;
  \<open>float_of_str\<close> is \<open>float(value)\<close>, with the message of its \<open>ValueError\<close> on the left.
\<close>

record world =
  getenv :: "string \<Rightarrow> string option"
  client_init :: "string \<Rightarrow> string \<Rightarrow> exc option"
  futures_create_order :: "jdict \<Rightarrow> exc + jdict"
  float_of_str :: "string \<Rightarrow> string + real"
  str_upper :: "string \<Rightarrow> string"

subsection \<open>Logging\<close>

datatype level = DEBUG | INFO | WARNING | ERROR

fun levelno :: "level \<Rightarrow> nat" where
  "levelno DEBUG = 10"
| "levelno INFO = 20"
| "levelno WARNING = 30"
| "levelno ERROR = 40"

text \<open>
  \<open>JsonDumps indent d\<close> stands for the string that \<open>json.dumps(d, indent=indent)\<close>
  returns. A log record keeps the format string and its arguments apart, as
  \<open>logging.LogRecord\<close> does; the handlers' formatter adds the time stamp.
\<close>

datatype rendered = JsonDumps "nat option" jdict

datatype log_arg = AStr string | AText rendered | AExc api_exception | AVal "jvalue option"

datatype log_record =
  LogRecord (levelname: level) (logger_name: string) (msg: string) (msg_args: "log_arg list")

text \<open>
  What a stream receives: a formatted log record, a printed text, the help or the usage
  message of \<open>argparse\<close>, the traceback of an exception that nothing caught.
\<close>

datatype out_item =
  Logged log_record | Printed rendered | ArgparseHelp | ArgparseUsage | Traceback exc

datatype stream = Stdout | Stderr

datatype handler = FileHandler string level | StreamHandler stream level

record state =
  log_file :: "log_record list"
  stdout :: "out_item list"
  stderr :: "out_item list"
  rpc_calls :: "jdict list"

definition init_state :: state where
  "init_state = \<lparr>log_file = [], stdout = [], stderr = [], rpc_calls = []\<rparr>"

definition TESTNET_BASE_URL :: string where
  "TESTNET_BASE_URL = ''https://testnet.binancefuture.com''"

definition LOG_FILE :: string where
  "LOG_FILE = ''bot.log''"

text \<open>
  \<open>_setup_logger\<close>: the argument is the list of handlers the logger \<open>BasicBot\<close> already
  has; the result is its list of handlers afterwards.
\<close>

definition setup_logger :: "handler list \<Rightarrow> handler list" where
  "setup_logger existing =
     (if existing \<noteq> [] then existing
      else existing @ [FileHandler LOG_FILE INFO] @ [StreamHandler Stdout INFO])"

definition LOGGER :: "handler list" where
  "LOGGER = setup_logger []"

fun handle :: "log_record \<Rightarrow> handler \<Rightarrow> state \<Rightarrow> state" where
  "handle r (FileHandler f lv) st =
     (if levelno lv \<le> levelno (levelname r) then st\<lparr>log_file := log_file st @ [r]\<rparr> else st)"
| "handle r (StreamHandler Stdout lv) st =
     (if levelno lv \<le> levelno (levelname r) then st\<lparr>stdout := stdout st @ [Logged r]\<rparr> else st)"
| "handle r (StreamHandler Stderr lv) st =
     (if levelno lv \<le> levelno (levelname r) then st\<lparr>stderr := stderr st @ [Logged r]\<rparr> else st)"

text \<open>A logging call on \<open>LOGGER\<close>, whose own level is \<open>INFO\<close>.\<close>

definition LOGGER_log :: "level \<Rightarrow> string \<Rightarrow> log_arg list \<Rightarrow> state \<Rightarrow> state" where
  "LOGGER_log lv m as st =
     (if levelno INFO \<le> levelno lv
      then fold (handle (LogRecord lv ''BasicBot'' m as)) LOGGER st
      else st)"

definition LOGGER_info :: "string \<Rightarrow> log_arg list \<Rightarrow> state \<Rightarrow> state" where
  "LOGGER_info = LOGGER_log INFO"

definition LOGGER_error :: "string \<Rightarrow> log_arg list \<Rightarrow> state \<Rightarrow> state" where
  "LOGGER_error = LOGGER_log ERROR"

subsection \<open>\<open>BasicBot\<close>\<close>

definition ORDER_TYPE_LIMIT :: string where
  "ORDER_TYPE_LIMIT = ''LIMIT''"

definition ORDER_TYPE_MARKET :: string where
  "ORDER_TYPE_MARKET = ''MARKET''"

text \<open>
  \<open>BasicBot.__init__\<close>: an exception of the \<open>Client\<close> constructor (line 79) leaves the
  method before anything is logged.
\<close>

definition BasicBot_init :: "world \<Rightarrow> string \<Rightarrow> string \<Rightarrow> state \<Rightarrow> exc + state" where
  "BasicBot_init w api_key api_secret st =
     (case client_init w api_key api_secret of
        Some e \<Rightarrow> Inl e
      | None \<Rightarrow>
          Inr (LOGGER_info ''Client initialized for Binance Futures testnet @ %s''
                 [AStr TESTNET_BASE_URL] st))"

definition log_order :: "jdict \<Rightarrow> jdict \<Rightarrow> state \<Rightarrow> state" where
  "log_order order_params response st =
     LOGGER_info ''Order response: %s'' [AText (JsonDumps None response)]
       (LOGGER_info ''Order params: %s'' [AText (JsonDumps None order_params)] st)"

text \<open>
  Lines 127 to 134 of \<open>place_order\<close>: the request is logged and sent once. A response
  is logged and returned; an exception of one of the two classes of line 132 is logged
  and raised again; any other exception passes through unlogged.
\<close>

definition send_order :: "world \<Rightarrow> jdict \<Rightarrow> state \<Rightarrow> (exc + jdict) \<times> state" where
  "send_order w order_params st =
     (let st1 = LOGGER_info ''Placing order: %s'' [AText (JsonDumps None order_params)] st;
          st2 = st1\<lparr>rpc_calls := rpc_calls st1 @ [order_params]\<rparr>
      in case futures_create_order w order_params of
           Inr response \<Rightarrow> (Inr response, log_order order_params response st2)
         | Inl (Remote e) \<Rightarrow>
             (Inl (Remote e), LOGGER_error ''Binance API error: %s'' [AExc e] st2)
         | Inl e \<Rightarrow> (Inl e, st2))"

text \<open>
  \<open>place_order\<close>. The argument \<open>time_in_force\<close> is \<open>None\<close> when the caller leaves it
  out, and the default of the signature applies.
\<close>

definition place_order ::
  "world \<Rightarrow> string \<Rightarrow> string \<Rightarrow> string \<Rightarrow> real \<Rightarrow> real option \<Rightarrow> string option \<Rightarrow> state
     \<Rightarrow> (exc + jdict) \<times> state" where
  "place_order w symbol side order_type quantity price time_in_force st =
     (let tif = (case time_in_force of None \<Rightarrow> ''GTC'' | Some t \<Rightarrow> t);
          order_params =
            [(''symbol'', JStr (str_upper w symbol)),
             (''side'', JStr (str_upper w side)),
             (''type'', JStr (str_upper w order_type)),
             (''quantity'', JNum quantity)]
      in if str_upper w order_type = ORDER_TYPE_LIMIT then
           (case price of
              None \<Rightarrow> (Inl (ValueError ''Limit orders require `price`.''), st)
            | Some p \<Rightarrow>
                send_order w
                  (dict_update order_params [(''price'', JNum p), (''timeInForce'', JStr tif)])
                  st)
         else if str_upper w order_type = ORDER_TYPE_MARKET then send_order w order_params st
         else (Inl (ValueError (''Unsupported order type: '' @ order_type)), st))"

subsection \<open>The command line\<close>

definition positive_float :: "world \<Rightarrow> string \<Rightarrow> arg_error + real" where
  "positive_float w v =
     (case float_of_str w v of
        Inl m \<Rightarrow> Inl (ArgumentTypeError m)
      | Inr f \<Rightarrow> if f \<le> 0 then Inl (ArgumentTypeError ''Value must be positive.'') else Inr f)"

text \<open>
  The command line as \<open>argparse\<close> reads it, from left to right: \<open>Help\<close> is \<open>-h\<close> or
  \<open>--help\<close>, which the parser registers by default; \<open>Opt name value\<close> is an option
  string with the argument that follows it.
\<close>

datatype token = Help | Opt string string

text \<open>The attributes set so far while the command line is read.\<close>

record partial_namespace =
  seen_api_key :: "string option"
  seen_api_secret :: "string option"
  seen_symbol :: "string option"
  seen_side :: "string option"
  seen_order_type :: "string option"
  seen_quantity :: "real option"
  seen_price :: "real option"
  seen_time_in_force :: string
  seen_unrecognized :: bool

record namespace =
  args_api_key :: "string option"
  args_api_secret :: "string option"
  args_symbol :: string
  args_side :: string
  args_order_type :: string
  args_quantity :: real
  args_price :: "real option"
  args_time_in_force :: string

text \<open>The defaults of the parser of lines 151 to 187.\<close>

definition parser_defaults :: partial_namespace where
  "parser_defaults =
     \<lparr>seen_api_key = None, seen_api_secret = None, seen_symbol = None, seen_side = None,
      seen_order_type = None, seen_quantity = None, seen_price = None,
      seen_time_in_force = ''GTC'', seen_unrecognized = False\<rparr>"

text \<open>
  One step of the parser. The help action prints the help and ends the process with
  status 0. A value outside the \<open>choices\<close> of its option, or one that the \<open>type\<close>
  function of its option rejects, ends the process at once through \<open>parser.error\<close>, with
  status 2. An option string the parser does not know is set aside and reported at the
  end.
\<close>

definition parse_token :: "world \<Rightarrow> token \<Rightarrow> partial_namespace \<Rightarrow> sys_exit + partial_namespace" where
  "parse_token w t ns =
     (case t of
        Help \<Rightarrow> Inl (SystemExit 0)
      | Opt name v \<Rightarrow>
          if name = ''--api-key'' then Inr (ns\<lparr>seen_api_key := Some v\<rparr>)
          else if name = ''--api-secret'' then Inr (ns\<lparr>seen_api_secret := Some v\<rparr>)
          else if name = ''--symbol'' then Inr (ns\<lparr>seen_symbol := Some v\<rparr>)
          else if name = ''--side'' then
            (if v \<in> set [''BUY'', ''SELL''] then Inr (ns\<lparr>seen_side := Some v\<rparr>)
             else Inl (SystemExit 2))
          else if name = ''--type'' then
            (if v \<in> set [''MARKET'', ''LIMIT''] then Inr (ns\<lparr>seen_order_type := Some v\<rparr>)
             else Inl (SystemExit 2))
          else if name = ''--quantity'' then
            (case positive_float w v of
               Inl _ \<Rightarrow> Inl (SystemExit 2)
             | Inr q \<Rightarrow> Inr (ns\<lparr>seen_quantity := Some q\<rparr>))
          else if name = ''--price'' then
            (case positive_float w v of
               Inl _ \<Rightarrow> Inl (SystemExit 2)
             | Inr p \<Rightarrow> Inr (ns\<lparr>seen_price := Some p\<rparr>))
          else if name = ''--tif'' then
            (if v \<in> set [''GTC'', ''IOC'', ''FOK'']
             then Inr (ns\<lparr>seen_time_in_force := v\<rparr>)
             else Inl (SystemExit 2))
          else Inr (ns\<lparr>seen_unrecognized := True\<rparr>))"

fun parse_tokens :: "world \<Rightarrow> token list \<Rightarrow> partial_namespace \<Rightarrow> sys_exit + partial_namespace" where
  "parse_tokens w [] ns = Inr ns"
| "parse_tokens w (t # ts) ns =
     (case parse_token w t ns of
        Inl e \<Rightarrow> Inl e
      | Inr ns' \<Rightarrow> parse_tokens w ts ns')"

text \<open>
  \<open>parse_cli_arguments\<close>: once the command line is read, a required option that is
  missing, and then an option string that was not recognised, end the process with
  status 2.
\<close>

definition parse_cli_arguments :: "world \<Rightarrow> token list \<Rightarrow> sys_exit + namespace" where
  "parse_cli_arguments w argv =
     (case parse_tokens w argv parser_defaults of
        Inl e \<Rightarrow> Inl e
      | Inr ns \<Rightarrow>
         (case (seen_symbol ns, seen_side ns, seen_order_type ns, seen_quantity ns) of
            (Some sy, Some sd, Some ty, Some q) \<Rightarrow>
              if seen_unrecognized ns then Inl (SystemExit 2)
              else
                Inr \<lparr>args_api_key = seen_api_key ns, args_api_secret = seen_api_secret ns,
                     args_symbol = sy, args_side = sd, args_order_type = ty,
                     args_quantity = q, args_price = seen_price ns,
                     args_time_in_force = seen_time_in_force ns\<rparr>
          | _ \<Rightarrow> Inl (SystemExit 2)))"

subsection \<open>\<open>main\<close>\<close>

text \<open>Truth value of an optional string, and Python's \<open>a or b\<close> on two of them.\<close>

fun truthy :: "string option \<Rightarrow> bool" where
  "truthy None = False"
| "truthy (Some s) = (s \<noteq> [])"

definition py_or :: "string option \<Rightarrow> string option \<Rightarrow> string option" where
  "py_or a b = (if truthy a then a else b)"

text \<open>Lines 198 and 199: the flag if it is given and not empty, else the environment.\<close>

definition resolve_api_key :: "world \<Rightarrow> namespace \<Rightarrow> string option" where
  "resolve_api_key w args = py_or (args_api_key args) (getenv w ''BINANCE_API_KEY'')"

definition resolve_api_secret :: "world \<Rightarrow> namespace \<Rightarrow> string option" where
  "resolve_api_secret w args = py_or (args_api_secret args) (getenv w ''BINANCE_API_SECRET'')"

text \<open>
  An exception that leaves \<open>main\<close>: the interpreter writes the traceback to the standard
  error stream and ends the process with status 1.
\<close>

definition uncaught :: "exc \<Rightarrow> state \<Rightarrow> int \<times> state" where
  "uncaught e st = (1, st\<lparr>stderr := stderr st @ [Traceback e]\<rparr>)"

text \<open>
  \<open>main\<close> after the command line has been parsed (lines 198 to 225). The result is the
  exit status of the process and the trace it leaves; a \<open>main\<close> that returns without
  \<open>sys.exit\<close> ends the process with status 0. The constructor of line 206 runs outside
  the \<open>try\<close>, so whatever it raises is not caught; of what \<open>place_order\<close> raises, lines
  220 to 225 catch \<open>ValueError\<close> and the two classes of the client library.
\<close>

definition main_parsed :: "world \<Rightarrow> namespace \<Rightarrow> state \<Rightarrow> int \<times> state" where
  "main_parsed w args st =
     (let api_key = resolve_api_key w args;
          api_secret = resolve_api_secret w args
      in if \<not> truthy api_key \<or> \<not> truthy api_secret then
           (1, LOGGER_error
                 ''API credentials must be provided via flags or environment variables.'' [] st)
         else
           (case BasicBot_init w (the api_key) (the api_secret) st of
              Inl e \<Rightarrow> uncaught e st
            | Inr st1 \<Rightarrow>
               (case place_order w (args_symbol args) (args_side args) (args_order_type args)
                       (args_quantity args) (args_price args) (Some (args_time_in_force args))
                       st1 of
                  (Inr response, st') \<Rightarrow>
                    (0, (let st'' = LOGGER_info ''Order successfully executed. ID: %s''
                                      [AVal (map_of response ''orderId'')] st'
                         in st''\<lparr>stdout :=
                                  stdout st'' @ [Printed (JsonDumps (Some 2) response)]\<rparr>))
                | (Inl (ValueError m), st') \<Rightarrow> (2, LOGGER_error ''%s'' [AStr m] st')
                | (Inl (Remote e), st') \<Rightarrow> (3, st')
                | (Inl (OtherException d), st') \<Rightarrow> uncaught (OtherException d) st')))"

text \<open>
  \<open>main\<close>: when the parser ends the process (line 196), the help went to the standard
  output if the status is 0, and the usage message to the standard error stream
  otherwise.
\<close>

definition main :: "world \<Rightarrow> token list \<Rightarrow> int \<times> state" where
  "main w argv =
     (case parse_cli_arguments w argv of
        Inl (SystemExit c) \<Rightarrow>
          (c, if c = 0 then init_state\<lparr>stdout := [ArgparseHelp]\<rparr>
              else init_state\<lparr>stderr := [ArgparseUsage]\<rparr>)
      | Inr args \<Rightarrow> main_parsed w args init_state)"

subsection \<open>Example worlds and command lines\<close>

text \<open>
  \<open>str.upper\<close> on ASCII text, for the example worlds: every string of the examples is
  ASCII.
\<close>

definition ascii_upper_char :: "char \<Rightarrow> char" where
  "ascii_upper_char c =
     (let n = (of_char c :: nat) in if 97 \<le> n \<and> n \<le> 122 then char_of (n - 32) else c)"

definition ascii_upper :: "string \<Rightarrow> string" where
  "ascii_upper s = map ascii_upper_char s"

definition example_float :: "string \<Rightarrow> string + real" where
  "example_float s =
     (if s = ''0.001'' then Inr (1 / 1000)
      else if s = ''0.01'' then Inr (1 / 100)
      else if s = ''2000'' then Inr 2000
      else if s = ''-1'' then Inr (- 1)
      else Inl ''could not convert string to float'')"

definition world_accepting :: world where
  "world_accepting =
     \<lparr>getenv = (\<lambda>_. None),
      client_init = (\<lambda>_ _. None),
      futures_create_order = (\<lambda>_. Inr [(''orderId'', JInt 42), (''status'', JStr ''NEW'')]),
      float_of_str = example_float,
      str_upper = ascii_upper\<rparr>"

definition world_rejecting :: world where
  "world_rejecting =
     \<lparr>getenv = (\<lambda>_. None),
      client_init = (\<lambda>_ _. None),
      futures_create_order = (\<lambda>_. Inl (Remote (BinanceAPIException
         ''APIError(code=-2015): Invalid API-key, IP, or permissions for action.''))),
      float_of_str = example_float,
      str_upper = ascii_upper\<rparr>"

definition world_offline :: world where
  "world_offline =
     \<lparr>getenv = (\<lambda>_. None),
      client_init = (\<lambda>_ _. None),
      futures_create_order =
        (\<lambda>_. Inl (OtherException ''requests.exceptions.ConnectionError'')),
      float_of_str = example_float,
      str_upper = ascii_upper\<rparr>"

definition world_client_fails :: world where
  "world_client_fails =
     \<lparr>getenv = (\<lambda>_. None),
      client_init = (\<lambda>_ _. Some (OtherException ''requests.exceptions.ConnectionError'')),
      futures_create_order = (\<lambda>_. Inr [(''orderId'', JInt 42), (''status'', JStr ''NEW'')]),
      float_of_str = example_float,
      str_upper = ascii_upper\<rparr>"

definition world_with_env :: world where
  "world_with_env =
     \<lparr>getenv = (\<lambda>n. if n = ''BINANCE_API_KEY'' then Some ''env-key''
                     else if n = ''BINANCE_API_SECRET'' then Some ''env-secret'' else None),
      client_init = (\<lambda>_ _. None),
      futures_create_order = (\<lambda>_. Inr [(''orderId'', JInt 42), (''status'', JStr ''NEW'')]),
      float_of_str = example_float,
      str_upper = ascii_upper\<rparr>"

definition cli_market :: "token list" where
  "cli_market =
     [Opt ''--api-key'' ''k'', Opt ''--api-secret'' ''s'', Opt ''--symbol'' ''BTCUSDT'',
      Opt ''--side'' ''BUY'', Opt ''--type'' ''MARKET'', Opt ''--quantity'' ''0.001'']"

definition cli_limit_ioc :: "token list" where
  "cli_limit_ioc =
     [Opt ''--api-key'' ''k'', Opt ''--api-secret'' ''s'', Opt ''--symbol'' ''ETHUSDT'',
      Opt ''--side'' ''SELL'', Opt ''--type'' ''LIMIT'', Opt ''--quantity'' ''0.01'',
      Opt ''--price'' ''2000'', Opt ''--tif'' ''IOC'']"

definition cli_limit_no_price_no_credentials :: "token list" where
  "cli_limit_no_price_no_credentials =
     [Opt ''--symbol'' ''ETHUSDT'', Opt ''--side'' ''SELL'', Opt ''--type'' ''LIMIT'',
      Opt ''--quantity'' ''0.01'']"

definition cli_negative_quantity_no_credentials :: "token list" where
  "cli_negative_quantity_no_credentials =
     [Opt ''--symbol'' ''BTCUSDT'', Opt ''--side'' ''BUY'', Opt ''--type'' ''MARKET'',
      Opt ''--quantity'' ''-1'']"

definition cli_empty_key_flag :: "token list" where
  "cli_empty_key_flag =
     [Opt ''--api-key'' [], Opt ''--api-secret'' ''flag-secret'', Opt ''--symbol'' ''BTCUSDT'',
      Opt ''--side'' ''BUY'', Opt ''--type'' ''MARKET'', Opt ''--quantity'' ''0.001'']"


section \<open>Properties\<close>

subsection \<open>Auxiliary facts\<close>

lemma LOGGER_info_eq:
  "LOGGER_info m as st =
     st\<lparr>log_file := log_file st @ [LogRecord INFO ''BasicBot'' m as],
        stdout := stdout st @ [Logged (LogRecord INFO ''BasicBot'' m as)]\<rparr>"
  by (simp add: LOGGER_info_def LOGGER_log_def LOGGER_def setup_logger_def)

lemma LOGGER_error_eq:
  "LOGGER_error m as st =
     st\<lparr>log_file := log_file st @ [LogRecord ERROR ''BasicBot'' m as],
        stdout := stdout st @ [Logged (LogRecord ERROR ''BasicBot'' m as)]\<rparr>"
  by (simp add: LOGGER_error_def LOGGER_log_def LOGGER_def setup_logger_def)

lemma init_state_fields:
  "log_file init_state = []" "stdout init_state = []" "stderr init_state = []"
  "rpc_calls init_state = []"
  by (simp_all add: init_state_def)

lemma ascii_upper_examples:
  "ascii_upper ''LIMIT'' = ''LIMIT''" "ascii_upper ''limit'' = ''LIMIT''"
  "ascii_upper ''MARKET'' = ''MARKET''" "ascii_upper ''market'' = ''MARKET''"
  "ascii_upper ''btcusdt'' = ''BTCUSDT''" "ascii_upper ''buy'' = ''BUY''"
  "ascii_upper ''BTCUSDT'' = ''BTCUSDT''" "ascii_upper ''BUY'' = ''BUY''"
  "ascii_upper ''ethusdt'' = ''ETHUSDT''" "ascii_upper ''sell'' = ''SELL''"
  "ascii_upper ''ETHUSDT'' = ''ETHUSDT''" "ascii_upper ''SELL'' = ''SELL''"
  "ascii_upper ''stop'' = ''STOP''" "ascii_upper ''STOP'' = ''STOP''"
  by code_simp+

lemma str_upper_examples [simp]:
  "str_upper world_accepting = ascii_upper" "str_upper world_rejecting = ascii_upper"
  "str_upper world_offline = ascii_upper" "str_upper world_client_fails = ascii_upper"
  "str_upper world_with_env = ascii_upper"
  by (simp_all add: world_accepting_def world_rejecting_def world_offline_def
      world_client_fails_def world_with_env_def)

lemma rpc_calls_send_order:
  "rpc_calls (snd (send_order w p st)) = rpc_calls st @ [p]"
  by (simp add: send_order_def Let_def log_order_def LOGGER_info_eq LOGGER_error_eq
      split: sum.splits exc.splits)

lemma fst_send_order:
  "fst (send_order w p st) = futures_create_order w p"
  by (simp add: send_order_def Let_def split: sum.splits exc.splits)

lemma place_order_limit_none:
  "str_upper w order_type = ORDER_TYPE_LIMIT \<Longrightarrow>
   place_order w symbol side order_type quantity None time_in_force st =
     (Inl (ValueError ''Limit orders require `price`.''), st)"
  by (simp add: place_order_def Let_def)

lemma place_order_limit_some:
  "str_upper w order_type = ORDER_TYPE_LIMIT \<Longrightarrow>
   place_order w symbol side order_type quantity (Some p) time_in_force st =
     send_order w
       [(''symbol'', JStr (str_upper w symbol)), (''side'', JStr (str_upper w side)),
        (''type'', JStr ''LIMIT''), (''quantity'', JNum quantity), (''price'', JNum p),
        (''timeInForce'', JStr (case time_in_force of None \<Rightarrow> ''GTC'' | Some t \<Rightarrow> t))] st"
  by (simp add: place_order_def Let_def ORDER_TYPE_LIMIT_def)

lemma place_order_market:
  "str_upper w order_type = ORDER_TYPE_MARKET \<Longrightarrow>
   place_order w symbol side order_type quantity price time_in_force st =
     send_order w
       [(''symbol'', JStr (str_upper w symbol)), (''side'', JStr (str_upper w side)),
        (''type'', JStr ''MARKET''), (''quantity'', JNum quantity)] st"
  by (simp add: place_order_def Let_def ORDER_TYPE_LIMIT_def ORDER_TYPE_MARKET_def)

lemma place_order_unsupported:
  "str_upper w order_type \<noteq> ORDER_TYPE_LIMIT \<Longrightarrow>
   str_upper w order_type \<noteq> ORDER_TYPE_MARKET \<Longrightarrow>
   place_order w symbol side order_type quantity price time_in_force st =
     (Inl (ValueError (''Unsupported order type: '' @ order_type)), st)"
  by (simp add: place_order_def Let_def)




lemma main_Inr:
  "parse_cli_arguments w argv = Inr args \<Longrightarrow> main w argv = main_parsed w args init_state"
  by (simp add: main_def)

lemma main_Inl:
  assumes "parse_cli_arguments w argv = Inl (SystemExit c)"
  shows "fst (main w argv) = c" and "rpc_calls (snd (main w argv)) = []"
    and "log_file (snd (main w argv)) = []"
  using assms by (simp_all add: main_def init_state_def)

lemma main_parsed_missing:
  "\<not> truthy (resolve_api_key w args) \<or> \<not> truthy (resolve_api_secret w args) \<Longrightarrow>
   main_parsed w args st =
     (1, LOGGER_error
           ''API credentials must be provided via flags or environment variables.'' [] st)"
  by (auto simp: main_parsed_def Let_def)

lemma main_parsed_client_fails:
  "truthy (resolve_api_key w args) \<Longrightarrow> truthy (resolve_api_secret w args) \<Longrightarrow>
   client_init w (the (resolve_api_key w args)) (the (resolve_api_secret w args)) = Some e \<Longrightarrow>
   main_parsed w args st = uncaught e st"
  by (simp add: main_parsed_def Let_def BasicBot_init_def)

lemma main_parsed_ready:
  "truthy (resolve_api_key w args) \<Longrightarrow> truthy (resolve_api_secret w args) \<Longrightarrow>
   client_init w (the (resolve_api_key w args)) (the (resolve_api_secret w args)) = None \<Longrightarrow>
   main_parsed w args st =
     (case place_order w (args_symbol args) (args_side args) (args_order_type args)
             (args_quantity args) (args_price args) (Some (args_time_in_force args))
             (LOGGER_info ''Client initialized for Binance Futures testnet @ %s''
                [AStr TESTNET_BASE_URL] st) of
        (Inr response, st') \<Rightarrow>
          (0, (let st'' = LOGGER_info ''Order successfully executed. ID: %s''
                            [AVal (map_of response ''orderId'')] st'
               in st''\<lparr>stdout := stdout st'' @ [Printed (JsonDumps (Some 2) response)]\<rparr>))
      | (Inl (ValueError m), st') \<Rightarrow> (2, LOGGER_error ''%s'' [AStr m] st')
      | (Inl (Remote e), st') \<Rightarrow> (3, st')
      | (Inl (OtherException d), st') \<Rightarrow> uncaught (OtherException d) st')"
  by (simp add: main_parsed_def Let_def BasicBot_init_def)

lemma main_parsed_limit_none:
  "truthy (resolve_api_key w args) \<Longrightarrow> truthy (resolve_api_secret w args) \<Longrightarrow>
   client_init w (the (resolve_api_key w args)) (the (resolve_api_secret w args)) = None \<Longrightarrow>
   str_upper w (args_order_type args) = ORDER_TYPE_LIMIT \<Longrightarrow> args_price args = None \<Longrightarrow>
   main_parsed w args st =
     (2, LOGGER_error ''%s'' [AStr ''Limit orders require `price`.'']
           (LOGGER_info ''Client initialized for Binance Futures testnet @ %s''
                [AStr TESTNET_BASE_URL] st))"
  by (simp add: main_parsed_ready place_order_limit_none)

lemma main_parsed_unsupported:
  "truthy (resolve_api_key w args) \<Longrightarrow> truthy (resolve_api_secret w args) \<Longrightarrow>
   client_init w (the (resolve_api_key w args)) (the (resolve_api_secret w args)) = None \<Longrightarrow>
   str_upper w (args_order_type args) \<noteq> ORDER_TYPE_LIMIT \<Longrightarrow>
   str_upper w (args_order_type args) \<noteq> ORDER_TYPE_MARKET \<Longrightarrow>
   main_parsed w args st =
     (2, LOGGER_error ''%s'' [AStr (''Unsupported order type: '' @ args_order_type args)]
           (LOGGER_info ''Client initialized for Binance Futures testnet @ %s''
                [AStr TESTNET_BASE_URL] st))"
  by (simp add: main_parsed_ready place_order_unsupported)

lemma main_parsed_sent_Remote:
  assumes "truthy (resolve_api_key w args)" "truthy (resolve_api_secret w args)"
    and "client_init w (the (resolve_api_key w args)) (the (resolve_api_secret w args)) = None"
    and "\<And>st1. place_order w (args_symbol args) (args_side args) (args_order_type args)
           (args_quantity args) (args_price args) (Some (args_time_in_force args)) st1
         = send_order w pl st1"
    and "futures_create_order w pl = Inl (Remote e)"
  shows "fst (main_parsed w args st) = 3"
    and "rpc_calls (snd (main_parsed w args st)) = rpc_calls st @ [pl]"
    and "log_file (snd (main_parsed w args st)) =
           log_file st @
           [LogRecord INFO ''BasicBot''
              ''Client initialized for Binance Futures testnet @ %s'' [AStr TESTNET_BASE_URL],
            LogRecord INFO ''BasicBot'' ''Placing order: %s'' [AText (JsonDumps None pl)],
            LogRecord ERROR ''BasicBot'' ''Binance API error: %s'' [AExc e]]"
    and "stdout (snd (main_parsed w args st)) =
           stdout st @
           map Logged [LogRecord INFO ''BasicBot''
              ''Client initialized for Binance Futures testnet @ %s'' [AStr TESTNET_BASE_URL],
            LogRecord INFO ''BasicBot'' ''Placing order: %s'' [AText (JsonDumps None pl)],
            LogRecord ERROR ''BasicBot'' ''Binance API error: %s'' [AExc e]]"
  using assms(5)
  by (simp_all add: main_parsed_ready [OF assms(1,2,3)] assms(4) Let_def send_order_def
      LOGGER_info_eq LOGGER_error_eq)

lemma main_parsed_sent_Inr:
  assumes "truthy (resolve_api_key w args)" "truthy (resolve_api_secret w args)"
    and "client_init w (the (resolve_api_key w args)) (the (resolve_api_secret w args)) = None"
    and "\<And>st1. place_order w (args_symbol args) (args_side args) (args_order_type args)
           (args_quantity args) (args_price args) (Some (args_time_in_force args)) st1
         = send_order w pl st1"
    and "futures_create_order w pl = Inr r"
  shows "fst (main_parsed w args st) = 0"
    and "rpc_calls (snd (main_parsed w args st)) = rpc_calls st @ [pl]"
  using assms(5)
  by (simp_all add: main_parsed_ready [OF assms(1,2,3)] assms(4) Let_def send_order_def
      log_order_def LOGGER_info_eq LOGGER_error_eq)

lemma main_parsed_sent_ValueError:
  assumes "truthy (resolve_api_key w args)" "truthy (resolve_api_secret w args)"
    and "client_init w (the (resolve_api_key w args)) (the (resolve_api_secret w args)) = None"
    and "\<And>st1. place_order w (args_symbol args) (args_side args) (args_order_type args)
           (args_quantity args) (args_price args) (Some (args_time_in_force args)) st1
         = send_order w pl st1"
    and "futures_create_order w pl = Inl (ValueError m)"
  shows "fst (main_parsed w args st) = 2"
    and "rpc_calls (snd (main_parsed w args st)) = rpc_calls st @ [pl]"
  using assms(5)
  by (simp_all add: main_parsed_ready [OF assms(1,2,3)] assms(4) Let_def send_order_def
      LOGGER_info_eq LOGGER_error_eq)

lemma main_parsed_sent_Other:
  assumes "truthy (resolve_api_key w args)" "truthy (resolve_api_secret w args)"
    and "client_init w (the (resolve_api_key w args)) (the (resolve_api_secret w args)) = None"
    and "\<And>st1. place_order w (args_symbol args) (args_side args) (args_order_type args)
           (args_quantity args) (args_price args) (Some (args_time_in_force args)) st1
         = send_order w pl st1"
    and "futures_create_order w pl = Inl (OtherException d)"
  shows "fst (main_parsed w args st) = 1"
    and "rpc_calls (snd (main_parsed w args st)) = rpc_calls st @ [pl]"
  using assms(5)
  by (simp_all add: main_parsed_ready [OF assms(1,2,3)] assms(4) Let_def send_order_def
      LOGGER_info_eq uncaught_def)

lemma main_parsed_sent_rpc:
  assumes "truthy (resolve_api_key w args)" "truthy (resolve_api_secret w args)"
    and "client_init w (the (resolve_api_key w args)) (the (resolve_api_secret w args)) = None"
    and "\<And>st1. place_order w (args_symbol args) (args_side args) (args_order_type args)
           (args_quantity args) (args_price args) (Some (args_time_in_force args)) st1
         = send_order w pl st1"
  shows "rpc_calls (snd (main_parsed w args st)) = rpc_calls st @ [pl]"
proof (cases "futures_create_order w pl")
  case (Inr r)
  show ?thesis by (rule main_parsed_sent_Inr(2) [OF assms Inr])
next
  case (Inl x)
  show ?thesis
  proof (cases x)
    case (ValueError m)
    with Inl show ?thesis by (intro main_parsed_sent_ValueError(2) [OF assms]) simp
  next
    case (Remote e)
    with Inl show ?thesis by (intro main_parsed_sent_Remote(2) [OF assms]) simp
  next
    case (OtherException d)
    with Inl show ?thesis by (intro main_parsed_sent_Other(2) [OF assms]) simp
  qed
qed

lemma main_parsed_cases:
  obtains
    (missing) "\<not> truthy (resolve_api_key w args) \<or> \<not> truthy (resolve_api_secret w args)"
  | (client) e where "truthy (resolve_api_key w args)" "truthy (resolve_api_secret w args)"
      "client_init w (the (resolve_api_key w args)) (the (resolve_api_secret w args)) = Some e"
  | (invalid) "truthy (resolve_api_key w args)" "truthy (resolve_api_secret w args)"
      "client_init w (the (resolve_api_key w args)) (the (resolve_api_secret w args)) = None"
      "str_upper w (args_order_type args) = ORDER_TYPE_LIMIT \<and> args_price args = None \<or>
       str_upper w (args_order_type args) \<noteq> ORDER_TYPE_LIMIT \<and>
       str_upper w (args_order_type args) \<noteq> ORDER_TYPE_MARKET"
  | (sent) pl where "truthy (resolve_api_key w args)" "truthy (resolve_api_secret w args)"
      "client_init w (the (resolve_api_key w args)) (the (resolve_api_secret w args)) = None"
      "\<not> (str_upper w (args_order_type args) = ORDER_TYPE_LIMIT \<and> args_price args = None \<or>
          str_upper w (args_order_type args) \<noteq> ORDER_TYPE_LIMIT \<and>
          str_upper w (args_order_type args) \<noteq> ORDER_TYPE_MARKET)"
      "\<And>st1. place_order w (args_symbol args) (args_side args) (args_order_type args)
         (args_quantity args) (args_price args) (Some (args_time_in_force args)) st1
       = send_order w pl st1"
proof (cases "\<not> truthy (resolve_api_key w args) \<or> \<not> truthy (resolve_api_secret w args)")
  case True
  then show ?thesis by (rule missing)
next
  case False
  then have k: "truthy (resolve_api_key w args)" and s: "truthy (resolve_api_secret w args)"
    by simp_all
  show ?thesis
  proof (cases "client_init w (the (resolve_api_key w args)) (the (resolve_api_secret w args))")
    case (Some e)
    with k s show ?thesis by (rule client)
  next
    case None
    show ?thesis
    proof (cases "str_upper w (args_order_type args) = ORDER_TYPE_LIMIT")
      case True
      show ?thesis
      proof (cases "args_price args")
        case np: None
        with True k s None show ?thesis by (intro invalid) simp_all
      next
        case (Some p)
        with True k s None show ?thesis
          by (intro sent) (simp_all add: place_order_limit_some)
      qed
    next
      case notlimit: False
      show ?thesis
      proof (cases "str_upper w (args_order_type args) = ORDER_TYPE_MARKET")
        case True
        with k s None show ?thesis
          by (intro sent) (simp_all add: place_order_market ORDER_TYPE_LIMIT_def
              ORDER_TYPE_MARKET_def)
      next
        case False
        with notlimit k s None show ?thesis by (intro invalid) simp_all
      qed
    qed
  qed
qed

subsection \<open>The builder: validation and payload\<close>

text \<open>
  Claim C2, as amended. For an order whose type reads LIMIT once uppercased and that has
  no price, whatever its other fields, \<open>place_order\<close> raises \<open>ValueError\<close> with the
  message of line 119, which ends in a full stop and sets the word price between back
  quotes, and it leaves the state as it found it: nothing is logged and no request is
  sent.
\<close>

theorem limit_without_price_rejected:
  assumes "str_upper w order_type = ORDER_TYPE_LIMIT"
  shows "place_order w symbol side order_type quantity None time_in_force st =
           (Inl (ValueError ''Limit orders require `price`.''), st) \<and>
         rpc_calls (snd (place_order w symbol side order_type quantity None time_in_force st)) =
           rpc_calls st"
  using assms by (simp add: place_order_limit_none)

theorem limit_without_price_rejected_witness:
  "str_upper world_accepting ''LIMIT'' = ORDER_TYPE_LIMIT \<and>
   place_order world_accepting ''ETHUSDT'' ''SELL'' ''LIMIT'' (1 / 100) None (Some ''GTC'')
     init_state =
     (Inl (ValueError ''Limit orders require `price`.''), init_state)"
proof -
  have h: "str_upper world_accepting ''LIMIT'' = ORDER_TYPE_LIMIT"
    by (simp add: ascii_upper_examples ORDER_TYPE_LIMIT_def)
  from limit_without_price_rejected [OF h] h show ?thesis by simp
qed

text \<open>
  The message is not the text \<open>Limit orders require price\<close> that the claim quotes.
\<close>

theorem limit_without_price_message_counterexample:
  "fst (place_order world_accepting ''ETHUSDT'' ''SELL'' ''LIMIT'' (1 / 100) None (Some ''GTC'')
          init_state) \<noteq> Inl (ValueError ''Limit orders require price'')"
  by (simp add: place_order_limit_none ascii_upper_examples ORDER_TYPE_LIMIT_def)

text \<open>
  Claim C3. For an order whose type reads MARKET once uppercased, the one request sent
  holds exactly the four fields symbol, side, type and quantity, in this order, with
  symbol, side and type uppercased. Neither price nor timeInForce is in it, whatever
  price and time in force were supplied, and supplying them is no error: the result is
  what the remote call gives.
\<close>

theorem market_payload:
  assumes "str_upper w order_type = ORDER_TYPE_MARKET"
  shows "rpc_calls (snd (place_order w symbol side order_type quantity price time_in_force st)) =
           rpc_calls st @
           [[(''symbol'', JStr (str_upper w symbol)), (''side'', JStr (str_upper w side)),
             (''type'', JStr ''MARKET''), (''quantity'', JNum quantity)]] \<and>
         fst (place_order w symbol side order_type quantity price time_in_force st) =
           futures_create_order w
             [(''symbol'', JStr (str_upper w symbol)), (''side'', JStr (str_upper w side)),
              (''type'', JStr ''MARKET''), (''quantity'', JNum quantity)]"
  using assms by (simp add: place_order_market rpc_calls_send_order fst_send_order)

theorem market_payload_witness:
  "str_upper world_accepting ''market'' = ORDER_TYPE_MARKET \<and>
   rpc_calls (snd (place_order world_accepting ''btcusdt'' ''buy'' ''market'' (1 / 1000)
                     (Some 2000) (Some ''IOC'') init_state)) =
     [[(''symbol'', JStr ''BTCUSDT''), (''side'', JStr ''BUY''), (''type'', JStr ''MARKET''),
       (''quantity'', JNum (1 / 1000))]] \<and>
   fst (place_order world_accepting ''btcusdt'' ''buy'' ''market'' (1 / 1000)
          (Some 2000) (Some ''IOC'') init_state) =
     Inr [(''orderId'', JInt 42), (''status'', JStr ''NEW'')]"
proof -
  have h: "str_upper world_accepting ''market'' = ORDER_TYPE_MARKET"
    by (simp add: ascii_upper_examples ORDER_TYPE_MARKET_def)
  have r: "\<And>p. futures_create_order world_accepting p =
      Inr [(''orderId'', JInt 42), (''status'', JStr ''NEW'')]"
    by (simp add: world_accepting_def)
  from market_payload [OF h, of "''btcusdt''" "''buy''" "1 / 1000" "Some 2000"
      "Some ''IOC''" init_state] h
  show ?thesis by (simp add: ascii_upper_examples init_state_fields r)
qed

text \<open>
  Claim C4. For an order whose type reads LIMIT once uppercased and that has a price, the
  one request sent holds symbol, side, type and quantity, then price and timeInForce;
  timeInForce is \<open>GTC\<close> when the caller gives none.
\<close>

theorem limit_payload:
  assumes "str_upper w order_type = ORDER_TYPE_LIMIT"
  shows "rpc_calls (snd (place_order w symbol side order_type quantity (Some p) time_in_force st)) =
           rpc_calls st @
           [[(''symbol'', JStr (str_upper w symbol)), (''side'', JStr (str_upper w side)),
             (''type'', JStr ''LIMIT''), (''quantity'', JNum quantity), (''price'', JNum p),
             (''timeInForce'',
                JStr (case time_in_force of None \<Rightarrow> ''GTC'' | Some t \<Rightarrow> t))]] \<and>
         fst (place_order w symbol side order_type quantity (Some p) time_in_force st) =
           futures_create_order w
             [(''symbol'', JStr (str_upper w symbol)), (''side'', JStr (str_upper w side)),
              (''type'', JStr ''LIMIT''), (''quantity'', JNum quantity), (''price'', JNum p),
              (''timeInForce'',
                 JStr (case time_in_force of None \<Rightarrow> ''GTC'' | Some t \<Rightarrow> t))]"
  using assms by (simp add: place_order_limit_some rpc_calls_send_order fst_send_order)

theorem limit_payload_witness:
  "str_upper world_accepting ''LIMIT'' = ORDER_TYPE_LIMIT \<and>
   rpc_calls (snd (place_order world_accepting ''ETHUSDT'' ''SELL'' ''LIMIT'' (1 / 100)
                     (Some 2000) None init_state)) =
     [[(''symbol'', JStr ''ETHUSDT''), (''side'', JStr ''SELL''), (''type'', JStr ''LIMIT''),
       (''quantity'', JNum (1 / 100)), (''price'', JNum 2000), (''timeInForce'', JStr ''GTC'')]]"
proof -
  have h: "str_upper world_accepting ''LIMIT'' = ORDER_TYPE_LIMIT"
    by (simp add: ascii_upper_examples ORDER_TYPE_LIMIT_def)
  from limit_payload [OF h, of "''ETHUSDT''" "''SELL''" "1 / 100" 2000 None init_state]
  show ?thesis
    by (simp add: ascii_upper_examples init_state_fields ORDER_TYPE_LIMIT_def)
qed

text \<open>
  Claim C8, as amended. For an order whose type, once uppercased, is neither LIMIT nor
  MARKET, \<open>place_order\<close> raises \<open>ValueError\<close> with the message
  \<open>Unsupported order type: \<close> followed by the order type as it was supplied, and sends
  nothing.
\<close>

theorem unsupported_order_type_rejected:
  assumes "str_upper w order_type \<noteq> ORDER_TYPE_LIMIT"
    and "str_upper w order_type \<noteq> ORDER_TYPE_MARKET"
  shows "place_order w symbol side order_type quantity price time_in_force st =
           (Inl (ValueError (''Unsupported order type: '' @ order_type)), st)"
  using assms by (rule place_order_unsupported)

theorem unsupported_order_type_rejected_witness:
  "str_upper world_accepting ''stop'' \<noteq> ORDER_TYPE_LIMIT \<and>
   str_upper world_accepting ''stop'' \<noteq> ORDER_TYPE_MARKET \<and>
   place_order world_accepting ''BTCUSDT'' ''BUY'' ''stop'' (1 / 1000) None None init_state =
     (Inl (ValueError ''Unsupported order type: stop''), init_state)"
proof -
  have h1: "str_upper world_accepting ''stop'' \<noteq> ORDER_TYPE_LIMIT"
    and h2: "str_upper world_accepting ''stop'' \<noteq> ORDER_TYPE_MARKET"
    by (simp_all add: ascii_upper_examples ORDER_TYPE_LIMIT_def ORDER_TYPE_MARKET_def)
  from unsupported_order_type_rejected [OF h1 h2, of "''BTCUSDT''" "''BUY''"
      "1 / 1000" None None init_state] h1 h2
  show ?thesis by simp
qed

text \<open>
  The order type \<open>market\<close> is neither of the strings \<open>MARKET\<close> and \<open>LIMIT\<close>, and it is
  accepted: the comparison of lines 117 and 121 is made on the uppercased type.
\<close>

theorem lowercase_market_accepted_counterexample:
  "''market'' \<noteq> ''MARKET'' \<and> ''market'' \<noteq> ''LIMIT'' \<and>
   fst (place_order world_accepting ''BTCUSDT'' ''BUY'' ''market'' (1 / 1000) None None init_state)
     \<noteq> Inl (ValueError ''Unsupported order type: market'')"
  by (simp add: place_order_market ascii_upper_examples ORDER_TYPE_MARKET_def fst_send_order
      world_accepting_def)

subsection \<open>The credential gate\<close>

text \<open>
  Claim C5, as amended. When the parser has accepted the command line and a credential
  is unresolved, the process exits with status 1 and leaves exactly one record, the
  credentials error, in the log file and on the standard output: \<open>place_order\<close> is not
  called, so the order is not validated and no request is sent, whatever the order
  parameters are.
\<close>

theorem credential_gate:
  assumes "parse_cli_arguments w argv = Inr args"
    and "\<not> truthy (resolve_api_key w args) \<or> \<not> truthy (resolve_api_secret w args)"
  shows "main w argv =
    (1, \<lparr>log_file =
            [LogRecord ERROR ''BasicBot''
               ''API credentials must be provided via flags or environment variables.'' []],
          stdout =
            [Logged (LogRecord ERROR ''BasicBot''
               ''API credentials must be provided via flags or environment variables.'' [])],
          stderr = [],
          rpc_calls = []\<rparr>)"
  using assms(2)
  by (simp add: main_Inr [OF assms(1)] main_parsed_missing LOGGER_error_eq init_state_def)

lemma parse_cli_limit_no_price_no_credentials:
  "parse_cli_arguments world_accepting cli_limit_no_price_no_credentials =
     Inr \<lparr>args_api_key = None, args_api_secret = None, args_symbol = ''ETHUSDT'',
          args_side = ''SELL'', args_order_type = ''LIMIT'', args_quantity = 1 / 100,
          args_price = None, args_time_in_force = ''GTC''\<rparr>"
  by (simp add: parse_cli_arguments_def cli_limit_no_price_no_credentials_def
      parse_token_def parser_defaults_def
      world_accepting_def example_float_def positive_float_def)

theorem credential_gate_witness:
  "parse_cli_arguments world_accepting cli_limit_no_price_no_credentials =
     Inr \<lparr>args_api_key = None, args_api_secret = None, args_symbol = ''ETHUSDT'',
          args_side = ''SELL'', args_order_type = ''LIMIT'', args_quantity = 1 / 100,
          args_price = None, args_time_in_force = ''GTC''\<rparr> \<and>
   resolve_api_key world_accepting
     \<lparr>args_api_key = None, args_api_secret = None, args_symbol = ''ETHUSDT'',
      args_side = ''SELL'', args_order_type = ''LIMIT'', args_quantity = 1 / 100,
      args_price = None, args_time_in_force = ''GTC''\<rparr> = None \<and>
   main world_accepting cli_limit_no_price_no_credentials =
    (1, \<lparr>log_file =
            [LogRecord ERROR ''BasicBot''
               ''API credentials must be provided via flags or environment variables.'' []],
          stdout =
            [Logged (LogRecord ERROR ''BasicBot''
               ''API credentials must be provided via flags or environment variables.'' [])],
          stderr = [],
          rpc_calls = []\<rparr>)"
proof -
  let ?args = "\<lparr>args_api_key = None, args_api_secret = None, args_symbol = ''ETHUSDT'',
      args_side = ''SELL'', args_order_type = ''LIMIT'', args_quantity = 1 / 100,
      args_price = None, args_time_in_force = ''GTC''\<rparr>"
  have k: "resolve_api_key world_accepting ?args = None"
    by (simp add: resolve_api_key_def py_or_def world_accepting_def)
  then have h: "\<not> truthy (resolve_api_key world_accepting ?args) \<or>
      \<not> truthy (resolve_api_secret world_accepting ?args)"
    by simp
  from credential_gate [OF parse_cli_limit_no_price_no_credentials h]
    parse_cli_limit_no_price_no_credentials k
  show ?thesis by simp
qed

text \<open>
  The parser runs on line 196, before the credentials are looked at: with no credentials
  at all and the quantity \<open>-1\<close>, the order parameters are validated first and the exit
  status is 2, not 1.
\<close>

theorem parser_precedes_credential_gate_counterexample:
  "cli_negative_quantity_no_credentials =
     [Opt ''--symbol'' ''BTCUSDT'', Opt ''--side'' ''BUY'', Opt ''--type'' ''MARKET'',
      Opt ''--quantity'' ''-1''] \<and>
   getenv world_accepting ''BINANCE_API_KEY'' = None \<and>
   getenv world_accepting ''BINANCE_API_SECRET'' = None \<and>
   fst (main world_accepting cli_negative_quantity_no_credentials) = 2"
  by (simp add: main_def parse_cli_arguments_def cli_negative_quantity_no_credentials_def
      parse_token_def parser_defaults_def
      world_accepting_def example_float_def positive_float_def)

subsection \<open>The remote call\<close>

text \<open>
  Claim C6. Whatever the command line, the environment and the answers of the remote
  endpoint, one run of \<open>main\<close> calls the order endpoint at most once; a call that
  fails is not made again.
\<close>

theorem at_most_one_remote_call:
  "length (rpc_calls (snd (main w argv))) \<le> 1"
proof (cases "parse_cli_arguments w argv")
  case (Inl e)
  then show ?thesis by (cases e) (simp add: main_Inl)
next
  case (Inr args)
  then have m: "main w argv = main_parsed w args init_state"
    by (rule main_Inr)
  show ?thesis
  proof (cases w args rule: main_parsed_cases)
    case missing
    then show ?thesis
      unfolding m by (simp add: main_parsed_missing LOGGER_error_eq init_state_fields)
  next
    case (client e)
    then show ?thesis
      unfolding m by (simp add: main_parsed_client_fails uncaught_def init_state_fields)
  next
    case invalid
    from invalid(4) invalid(1,2,3) show ?thesis
      unfolding m
      by (auto simp: main_parsed_limit_none main_parsed_unsupported LOGGER_error_eq
          LOGGER_info_eq init_state_fields)
  next
    case (sent pl)
    from main_parsed_sent_rpc [OF sent(1,2,3) sent(5), of init_state] show ?thesis
      unfolding m by (simp add: init_state_fields)
  qed
qed

lemma parse_cli_limit_ioc:
  "parse_cli_arguments world_rejecting cli_limit_ioc =
     Inr \<lparr>args_api_key = Some ''k'', args_api_secret = Some ''s'', args_symbol = ''ETHUSDT'',
          args_side = ''SELL'', args_order_type = ''LIMIT'', args_quantity = 1 / 100,
          args_price = Some 2000, args_time_in_force = ''IOC''\<rparr>"
  by (simp add: parse_cli_arguments_def cli_limit_ioc_def parse_token_def parser_defaults_def
      world_rejecting_def example_float_def positive_float_def)

lemma limit_ioc_run:
  "fst (main world_rejecting cli_limit_ioc) = 3"
  "rpc_calls (snd (main world_rejecting cli_limit_ioc)) =
     [[(''symbol'', JStr ''ETHUSDT''), (''side'', JStr ''SELL''), (''type'', JStr ''LIMIT''),
       (''quantity'', JNum (1 / 100)), (''price'', JNum 2000), (''timeInForce'', JStr ''IOC'')]]"
  "log_file (snd (main world_rejecting cli_limit_ioc)) =
     [LogRecord INFO ''BasicBot''
        ''Client initialized for Binance Futures testnet @ %s'' [AStr TESTNET_BASE_URL],
      LogRecord INFO ''BasicBot'' ''Placing order: %s''
        [AText (JsonDumps None
          [(''symbol'', JStr ''ETHUSDT''), (''side'', JStr ''SELL''), (''type'', JStr ''LIMIT''),
           (''quantity'', JNum (1 / 100)), (''price'', JNum 2000),
           (''timeInForce'', JStr ''IOC'')])],
      LogRecord ERROR ''BasicBot'' ''Binance API error: %s''
        [AExc (BinanceAPIException
          ''APIError(code=-2015): Invalid API-key, IP, or permissions for action.'')]]"
  "stdout (snd (main world_rejecting cli_limit_ioc)) =
     map Logged (log_file (snd (main world_rejecting cli_limit_ioc)))"
proof -
  let ?args = "\<lparr>args_api_key = Some ''k'', args_api_secret = Some ''s'',
      args_symbol = ''ETHUSDT'', args_side = ''SELL'', args_order_type = ''LIMIT'',
      args_quantity = 1 / 100, args_price = Some 2000, args_time_in_force = ''IOC''\<rparr>"
  let ?pl = "[(''symbol'', JStr ''ETHUSDT''), (''side'', JStr ''SELL''), (''type'', JStr ''LIMIT''),
       (''quantity'', JNum (1 / 100)), (''price'', JNum 2000), (''timeInForce'', JStr ''IOC'')]"
  have k: "truthy (resolve_api_key world_rejecting ?args)"
    and s: "truthy (resolve_api_secret world_rejecting ?args)"
    by (simp_all add: resolve_api_key_def resolve_api_secret_def py_or_def)
  have c: "client_init world_rejecting (the (resolve_api_key world_rejecting ?args))
      (the (resolve_api_secret world_rejecting ?args)) = None"
    by (simp add: world_rejecting_def)
  have po: "\<And>st1. place_order world_rejecting (args_symbol ?args) (args_side ?args)
        (args_order_type ?args) (args_quantity ?args) (args_price ?args)
        (Some (args_time_in_force ?args)) st1 = send_order world_rejecting ?pl st1"
    by (simp add: place_order_limit_some ORDER_TYPE_LIMIT_def ascii_upper_examples)
  have r: "futures_create_order world_rejecting ?pl =
     Inl (Remote (BinanceAPIException
          ''APIError(code=-2015): Invalid API-key, IP, or permissions for action.''))"
    by (simp add: world_rejecting_def)
  note facts = main_parsed_sent_Remote [OF k s c po r, of init_state]
  show "fst (main world_rejecting cli_limit_ioc) = 3"
    using facts(1) by (simp add: main_Inr [OF parse_cli_limit_ioc])
  show "rpc_calls (snd (main world_rejecting cli_limit_ioc)) = [?pl]"
    using facts(2) by (simp add: main_Inr [OF parse_cli_limit_ioc] init_state_fields)
  show l: "log_file (snd (main world_rejecting cli_limit_ioc)) =
     [LogRecord INFO ''BasicBot''
        ''Client initialized for Binance Futures testnet @ %s'' [AStr TESTNET_BASE_URL],
      LogRecord INFO ''BasicBot'' ''Placing order: %s'' [AText (JsonDumps None ?pl)],
      LogRecord ERROR ''BasicBot'' ''Binance API error: %s''
        [AExc (BinanceAPIException
          ''APIError(code=-2015): Invalid API-key, IP, or permissions for action.'')]]"
    using facts(3) by (simp add: main_Inr [OF parse_cli_limit_ioc] init_state_fields)
  show "stdout (snd (main world_rejecting cli_limit_ioc)) =
     map Logged (log_file (snd (main world_rejecting cli_limit_ioc)))"
    unfolding l using facts(4)
    by (simp add: main_Inr [OF parse_cli_limit_ioc] init_state_fields)
qed

theorem at_most_one_remote_call_witness:
  "length (rpc_calls (snd (main world_rejecting cli_limit_ioc))) \<le> 1 \<and>
   rpc_calls (snd (main world_rejecting cli_limit_ioc)) \<noteq> []"
  using at_most_one_remote_call [of world_rejecting cli_limit_ioc]
  by (simp add: limit_ioc_run(2))

text \<open>
  Claim C7, as amended. When the request that was sent makes the remote endpoint raise an
  API exception, the process exits with status 3, the last of the three records in the log
  file has level \<open>ERROR\<close> and carries the exception itself as the argument of
  \<open>Binance API error: %s\<close>, and the standard output holds the log records, one line
  each, and nothing else: the response is not printed.
\<close>

theorem remote_error_outcome:
  assumes "rpc_calls (snd (main w argv)) = [p]" and "futures_create_order w p = Inl (Remote e)"
  shows "fst (main w argv) = 3 \<and>
         log_file (snd (main w argv)) =
           [LogRecord INFO ''BasicBot''
              ''Client initialized for Binance Futures testnet @ %s'' [AStr TESTNET_BASE_URL],
            LogRecord INFO ''BasicBot'' ''Placing order: %s'' [AText (JsonDumps None p)],
            LogRecord ERROR ''BasicBot'' ''Binance API error: %s'' [AExc e]] \<and>
         stdout (snd (main w argv)) = map Logged (log_file (snd (main w argv)))"
proof (cases "parse_cli_arguments w argv")
  case (Inl x)
  with assms(1) show ?thesis by (cases x) (simp add: main_Inl)
next
  case (Inr args)
  then have m: "main w argv = main_parsed w args init_state"
    by (rule main_Inr)
  show ?thesis
  proof (cases w args rule: main_parsed_cases)
    case missing
    with assms(1) show ?thesis
      unfolding m by (simp add: main_parsed_missing LOGGER_error_eq init_state_fields)
  next
    case (client x)
    with assms(1) show ?thesis
      unfolding m by (simp add: main_parsed_client_fails uncaught_def init_state_fields)
  next
    case invalid
    from invalid(4) assms(1) invalid(1,2,3) show ?thesis
      unfolding m
      by (auto simp: main_parsed_limit_none main_parsed_unsupported LOGGER_error_eq
          LOGGER_info_eq init_state_fields)
  next
    case (sent pl)
    have "rpc_calls (snd (main_parsed w args init_state)) = [pl]"
      using main_parsed_sent_rpc [OF sent(1,2,3) sent(5), of init_state]
      by (simp add: init_state_fields)
    with assms(1) have pl: "pl = p"
      unfolding m by simp
    from assms(2) have remote: "futures_create_order w pl = Inl (Remote e)"
      unfolding pl .
    from main_parsed_sent_Remote [OF sent(1,2,3) sent(5) remote, of init_state]
    show ?thesis
      unfolding m pl by (simp add: init_state_fields)
  qed
qed

theorem remote_error_outcome_witness:
  "rpc_calls (snd (main world_rejecting cli_limit_ioc)) =
     [[(''symbol'', JStr ''ETHUSDT''), (''side'', JStr ''SELL''), (''type'', JStr ''LIMIT''),
       (''quantity'', JNum (1 / 100)), (''price'', JNum 2000), (''timeInForce'', JStr ''IOC'')]] \<and>
   fst (main world_rejecting cli_limit_ioc) = 3 \<and>
   last (log_file (snd (main world_rejecting cli_limit_ioc))) =
     LogRecord ERROR ''BasicBot'' ''Binance API error: %s''
       [AExc (BinanceAPIException
          ''APIError(code=-2015): Invalid API-key, IP, or permissions for action.'')]"
proof -
  have r: "futures_create_order world_rejecting
      [(''symbol'', JStr ''ETHUSDT''), (''side'', JStr ''SELL''), (''type'', JStr ''LIMIT''),
       (''quantity'', JNum (1 / 100)), (''price'', JNum 2000), (''timeInForce'', JStr ''IOC'')] =
     Inl (Remote (BinanceAPIException
          ''APIError(code=-2015): Invalid API-key, IP, or permissions for action.''))"
    by (simp add: world_rejecting_def)
  from remote_error_outcome [OF limit_ioc_run(2) r] limit_ioc_run(2)
  show ?thesis by simp
qed

text \<open>
  The console handler of \<open>_setup_logger\<close> writes to \<open>sys.stdout\<close>, so the standard output
  is not empty when the remote call fails: its last line is the error record.
\<close>

theorem log_lines_on_stdout_counterexample:
  "fst (main world_rejecting cli_limit_ioc) = 3 \<and>
   stdout (snd (main world_rejecting cli_limit_ioc)) \<noteq> [] \<and>
   last (stdout (snd (main world_rejecting cli_limit_ioc))) =
     Logged (LogRecord ERROR ''BasicBot'' ''Binance API error: %s''
       [AExc (BinanceAPIException
          ''APIError(code=-2015): Invalid API-key, IP, or permissions for action.'')])"
  by (simp add: limit_ioc_run)

subsection \<open>Exit status\<close>

lemma exit_code_after_parsing:
  assumes "parse_cli_arguments w argv = Inr args"
  shows "(fst (main w argv) = 0 \<longleftrightarrow>
            (\<exists>p r. rpc_calls (snd (main w argv)) = [p] \<and> futures_create_order w p = Inr r)) \<and>
         (fst (main w argv) = 3 \<longleftrightarrow>
            (\<exists>p e. rpc_calls (snd (main w argv)) = [p] \<and>
               futures_create_order w p = Inl (Remote e))) \<and>
         (fst (main w argv) = 2 \<longleftrightarrow>
            truthy (resolve_api_key w args) \<and> truthy (resolve_api_secret w args) \<and>
            client_init w (the (resolve_api_key w args)) (the (resolve_api_secret w args)) = None \<and>
            (str_upper w (args_order_type args) = ORDER_TYPE_LIMIT \<and> args_price args = None \<or>
             str_upper w (args_order_type args) \<noteq> ORDER_TYPE_LIMIT \<and>
             str_upper w (args_order_type args) \<noteq> ORDER_TYPE_MARKET) \<or>
            (\<exists>p m. rpc_calls (snd (main w argv)) = [p] \<and>
               futures_create_order w p = Inl (ValueError m))) \<and>
         (fst (main w argv) = 1 \<longleftrightarrow>
            \<not> truthy (resolve_api_key w args) \<or> \<not> truthy (resolve_api_secret w args) \<or>
            client_init w (the (resolve_api_key w args)) (the (resolve_api_secret w args)) \<noteq> None \<or>
            (\<exists>p d. rpc_calls (snd (main w argv)) = [p] \<and>
               futures_create_order w p = Inl (OtherException d)))"
proof -
  have m: "main w argv = main_parsed w args init_state"
    using assms by (rule main_Inr)
  show ?thesis
  proof (cases w args rule: main_parsed_cases)
    case missing
    then have "main_parsed w args init_state =
       (1, LOGGER_error
             ''API credentials must be provided via flags or environment variables.'' []
             init_state)"
      by (rule main_parsed_missing)
    with missing show ?thesis
      unfolding m by (auto simp: LOGGER_error_eq init_state_fields)
  next
    case (client e)
    then have "main_parsed w args init_state = uncaught e init_state"
      by (rule main_parsed_client_fails)
    with client show ?thesis
      unfolding m by (auto simp: uncaught_def init_state_fields)
  next
    case invalid
    have "fst (main_parsed w args init_state) = 2 \<and>
        rpc_calls (snd (main_parsed w args init_state)) = []"
      using invalid(4) invalid(1,2,3)
      by (auto simp: main_parsed_limit_none main_parsed_unsupported LOGGER_error_eq
          LOGGER_info_eq init_state_fields)
    with invalid show ?thesis
      unfolding m by auto
  next
    case (sent pl)
    have calls: "rpc_calls (snd (main_parsed w args init_state)) = [pl]"
      using main_parsed_sent_rpc [OF sent(1,2,3) sent(5), of init_state]
      by (simp add: init_state_fields)
    show ?thesis
    proof (cases "futures_create_order w pl")
      case (Inr r)
      have "fst (main_parsed w args init_state) = 0"
        by (rule main_parsed_sent_Inr(1) [OF sent(1,2,3) sent(5) Inr])
      with sent(1,2,3,4) calls Inr show ?thesis
        unfolding m by auto
    next
      case (Inl x)
      show ?thesis
      proof (cases x)
        case (ValueError msg)
        with Inl have r: "futures_create_order w pl = Inl (ValueError msg)" by simp
        have "fst (main_parsed w args init_state) = 2"
          by (rule main_parsed_sent_ValueError(1) [OF sent(1,2,3) sent(5) r])
        with sent(1,2,3,4) calls r show ?thesis
          unfolding m by auto
      next
        case (Remote e)
        with Inl have r: "futures_create_order w pl = Inl (Remote e)" by simp
        have "fst (main_parsed w args init_state) = 3"
          by (rule main_parsed_sent_Remote(1) [OF sent(1,2,3) sent(5) r])
        with sent(1,2,3,4) calls r show ?thesis
          unfolding m by auto
      next
        case (OtherException d)
        with Inl have r: "futures_create_order w pl = Inl (OtherException d)" by simp
        have "fst (main_parsed w args init_state) = 1"
          by (rule main_parsed_sent_Other(1) [OF sent(1,2,3) sent(5) r])
        with sent(1,2,3,4) calls r show ?thesis
          unfolding m by auto
      qed
    qed
  qed
qed


lemma parse_cli_market:
  "float_of_str w = example_float \<Longrightarrow>
   parse_cli_arguments w cli_market =
     Inr \<lparr>args_api_key = Some ''k'', args_api_secret = Some ''s'', args_symbol = ''BTCUSDT'',
          args_side = ''BUY'', args_order_type = ''MARKET'', args_quantity = 1 / 1000,
          args_price = None, args_time_in_force = ''GTC''\<rparr>"
  by (simp add: parse_cli_arguments_def cli_market_def parse_token_def parser_defaults_def
      example_float_def positive_float_def)

lemma float_of_str_examples [simp]:
  "float_of_str world_accepting = example_float" "float_of_str world_rejecting = example_float"
  "float_of_str world_offline = example_float" "float_of_str world_client_fails = example_float"
  "float_of_str world_with_env = example_float"
  by (simp_all add: world_accepting_def world_rejecting_def world_offline_def
      world_client_fails_def world_with_env_def)






lemma truthy_iff: "truthy x \<longleftrightarrow> \<not> (x = None \<or> x = Some [])"
  by (cases x) simp_all

subsection \<open>Credential resolution\<close>

text \<open>
  Claim C9, as amended. On a command line that the parser accepts, a credential flag that
  is absent or empty makes \<open>main\<close> take the environment variable, and a flag that is not
  empty wins over the environment. The run ends at the credential check, with status 1
  and the credentials error as its only trace, exactly when the resolved key or the
  resolved secret is absent or empty. Status 1 is otherwise the status of an exception
  that leaves \<open>main\<close>: the exit status is 1 exactly when a resolved credential is absent
  or empty, or the constructor of the client raised, or the call raised an exception
  that lines 220 to 225 do not catch.
\<close>

theorem credential_resolution:
  assumes "parse_cli_arguments w argv = Inr args"
  shows "(args_api_key args = None \<or> args_api_key args = Some [] \<longrightarrow>
            resolve_api_key w args = getenv w ''BINANCE_API_KEY'') \<and>
         (args_api_secret args = None \<or> args_api_secret args = Some [] \<longrightarrow>
            resolve_api_secret w args = getenv w ''BINANCE_API_SECRET'') \<and>
         (\<forall>k. args_api_key args = Some k \<and> k \<noteq> [] \<longrightarrow> resolve_api_key w args = Some k) \<and>
         (\<forall>s. args_api_secret args = Some s \<and> s \<noteq> [] \<longrightarrow> resolve_api_secret w args = Some s) \<and>
         (main w argv =
            (1, \<lparr>log_file =
                    [LogRecord ERROR ''BasicBot''
                       ''API credentials must be provided via flags or environment variables.''
                       []],
                  stdout =
                    [Logged (LogRecord ERROR ''BasicBot''
                       ''API credentials must be provided via flags or environment variables.''
                       [])],
                  stderr = [],
                  rpc_calls = []\<rparr>) \<longleftrightarrow>
            resolve_api_key w args = None \<or> resolve_api_key w args = Some [] \<or>
            resolve_api_secret w args = None \<or> resolve_api_secret w args = Some []) \<and>
         (fst (main w argv) = 1 \<longleftrightarrow>
            resolve_api_key w args = None \<or> resolve_api_key w args = Some [] \<or>
            resolve_api_secret w args = None \<or> resolve_api_secret w args = Some [] \<or>
            client_init w (the (resolve_api_key w args)) (the (resolve_api_secret w args)) \<noteq> None \<or>
            (\<exists>p d. rpc_calls (snd (main w argv)) = [p] \<and>
               futures_create_order w p = Inl (OtherException d)))"
proof -
  let ?gate = "(1::int, \<lparr>log_file =
                    [LogRecord ERROR ''BasicBot''
                       ''API credentials must be provided via flags or environment variables.''
                       []],
                  stdout =
                    [Logged (LogRecord ERROR ''BasicBot''
                       ''API credentials must be provided via flags or environment variables.''
                       [])],
                  stderr = [],
                  rpc_calls = []\<rparr>)"
  have m: "main w argv = main_parsed w args init_state"
    using assms by (rule main_Inr)
  have res: "(args_api_key args = None \<or> args_api_key args = Some [] \<longrightarrow>
            resolve_api_key w args = getenv w ''BINANCE_API_KEY'') \<and>
         (args_api_secret args = None \<or> args_api_secret args = Some [] \<longrightarrow>
            resolve_api_secret w args = getenv w ''BINANCE_API_SECRET'') \<and>
         (\<forall>k. args_api_key args = Some k \<and> k \<noteq> [] \<longrightarrow> resolve_api_key w args = Some k) \<and>
         (\<forall>s. args_api_secret args = Some s \<and> s \<noteq> [] \<longrightarrow> resolve_api_secret w args = Some s)"
    by (auto simp: resolve_api_key_def resolve_api_secret_def py_or_def)
  have gate: "main w argv = ?gate \<longleftrightarrow>
      \<not> truthy (resolve_api_key w args) \<or> \<not> truthy (resolve_api_secret w args)"
  proof (cases w args rule: main_parsed_cases)
    case missing
    then show ?thesis
      unfolding m by (simp add: main_parsed_missing LOGGER_error_eq init_state_def)
  next
    case (client e)
    then show ?thesis
      unfolding m by (simp add: main_parsed_client_fails uncaught_def init_state_def)
  next
    case invalid
    have "fst (main_parsed w args init_state) = 2"
      using invalid(4) invalid(1,2,3)
      by (auto simp: main_parsed_limit_none main_parsed_unsupported)
    then have "main_parsed w args init_state \<noteq> ?gate"
      by (cases "main_parsed w args init_state") auto
    with invalid(1,2) show ?thesis
      unfolding m by simp
  next
    case (sent pl)
    have "rpc_calls (snd (main_parsed w args init_state)) = [pl]"
      using main_parsed_sent_rpc [OF sent(1,2,3) sent(5), of init_state]
      by (simp add: init_state_fields)
    then have "main_parsed w args init_state \<noteq> ?gate"
      by (cases "main_parsed w args init_state") auto
    with sent(1,2) show ?thesis
      unfolding m by simp
  qed
  have one: "fst (main w argv) = 1 \<longleftrightarrow>
      \<not> truthy (resolve_api_key w args) \<or> \<not> truthy (resolve_api_secret w args) \<or>
      client_init w (the (resolve_api_key w args)) (the (resolve_api_secret w args)) \<noteq> None \<or>
      (\<exists>p d. rpc_calls (snd (main w argv)) = [p] \<and>
         futures_create_order w p = Inl (OtherException d))"
    using exit_code_after_parsing [OF assms] by blast
  show ?thesis
    using res gate one unfolding truthy_iff by blast
qed

lemma parse_cli_empty_key_flag:
  "parse_cli_arguments world_with_env cli_empty_key_flag =
     Inr \<lparr>args_api_key = Some [], args_api_secret = Some ''flag-secret'',
          args_symbol = ''BTCUSDT'', args_side = ''BUY'', args_order_type = ''MARKET'',
          args_quantity = 1 / 1000, args_price = None, args_time_in_force = ''GTC''\<rparr>"
  by (simp add: parse_cli_arguments_def cli_empty_key_flag_def parse_token_def
      parser_defaults_def world_with_env_def example_float_def positive_float_def)

theorem credential_resolution_witness:
  "parse_cli_arguments world_with_env cli_empty_key_flag =
     Inr \<lparr>args_api_key = Some [], args_api_secret = Some ''flag-secret'',
          args_symbol = ''BTCUSDT'', args_side = ''BUY'', args_order_type = ''MARKET'',
          args_quantity = 1 / 1000, args_price = None, args_time_in_force = ''GTC''\<rparr> \<and>
   resolve_api_key world_with_env
     \<lparr>args_api_key = Some [], args_api_secret = Some ''flag-secret'',
      args_symbol = ''BTCUSDT'', args_side = ''BUY'', args_order_type = ''MARKET'',
      args_quantity = 1 / 1000, args_price = None, args_time_in_force = ''GTC''\<rparr> =
     Some ''env-key'' \<and>
   resolve_api_secret world_with_env
     \<lparr>args_api_key = Some [], args_api_secret = Some ''flag-secret'',
      args_symbol = ''BTCUSDT'', args_side = ''BUY'', args_order_type = ''MARKET'',
      args_quantity = 1 / 1000, args_price = None, args_time_in_force = ''GTC''\<rparr> =
     Some ''flag-secret''"
  using credential_resolution [OF parse_cli_empty_key_flag] parse_cli_empty_key_flag
  by (simp add: world_with_env_def)

lemma offline_run:
  "fst (main world_offline cli_market) = 1"
proof -
  let ?args = "\<lparr>args_api_key = Some ''k'', args_api_secret = Some ''s'',
      args_symbol = ''BTCUSDT'', args_side = ''BUY'', args_order_type = ''MARKET'',
      args_quantity = 1 / 1000, args_price = None, args_time_in_force = ''GTC''\<rparr>"
  let ?pl = "[(''symbol'', JStr ''BTCUSDT''), (''side'', JStr ''BUY''), (''type'', JStr ''MARKET''),
       (''quantity'', JNum (1 / 1000))]"
  have p: "parse_cli_arguments world_offline cli_market = Inr ?args"
    by (rule parse_cli_market) simp
  have k: "truthy (resolve_api_key world_offline ?args)"
    and s: "truthy (resolve_api_secret world_offline ?args)"
    by (simp_all add: resolve_api_key_def resolve_api_secret_def py_or_def)
  have c: "client_init world_offline (the (resolve_api_key world_offline ?args))
      (the (resolve_api_secret world_offline ?args)) = None"
    by (simp add: world_offline_def)
  have po: "\<And>st1. place_order world_offline (args_symbol ?args) (args_side ?args)
        (args_order_type ?args) (args_quantity ?args) (args_price ?args)
        (Some (args_time_in_force ?args)) st1 = send_order world_offline ?pl st1"
    by (simp add: place_order_market ORDER_TYPE_MARKET_def ascii_upper_examples)
  have r: "futures_create_order world_offline ?pl =
     Inl (OtherException ''requests.exceptions.ConnectionError'')"
    by (simp add: world_offline_def)
  from main_parsed_sent_Other(1) [OF k s c po r, of init_state] show ?thesis
    by (simp add: main_Inr [OF p])
qed

text \<open>
  With both credentials given and a network error raised by the call, the exit status is
  1 although no resolved credential is absent or empty.
\<close>

theorem network_error_exits_1_counterexample:
  "parse_cli_arguments world_offline cli_market =
     Inr \<lparr>args_api_key = Some ''k'', args_api_secret = Some ''s'', args_symbol = ''BTCUSDT'',
          args_side = ''BUY'', args_order_type = ''MARKET'', args_quantity = 1 / 1000,
          args_price = None, args_time_in_force = ''GTC''\<rparr> \<and>
   resolve_api_key world_offline
     \<lparr>args_api_key = Some ''k'', args_api_secret = Some ''s'', args_symbol = ''BTCUSDT'',
      args_side = ''BUY'', args_order_type = ''MARKET'', args_quantity = 1 / 1000,
      args_price = None, args_time_in_force = ''GTC''\<rparr> = Some ''k'' \<and>
   resolve_api_secret world_offline
     \<lparr>args_api_key = Some ''k'', args_api_secret = Some ''s'', args_symbol = ''BTCUSDT'',
      args_side = ''BUY'', args_order_type = ''MARKET'', args_quantity = 1 / 1000,
      args_price = None, args_time_in_force = ''GTC''\<rparr> = Some ''s'' \<and>
   fst (main world_offline cli_market) = 1"
proof (intro conjI)
  show "fst (main world_offline cli_market) = 1" by (rule offline_run)
qed (simp_all add: parse_cli_market resolve_api_key_def resolve_api_secret_def py_or_def)

subsection \<open>Letter case\<close>

text \<open>
  Claim C10, as amended. \<open>place_order\<close> reads symbol, side and order type through
  \<open>str.upper\<close> only, but for one message. Two calls whose symbols, sides and order types
  have the same images under \<open>str.upper\<close>, as \<open>limit\<close> and \<open>LIMIT\<close> have, leave the
  same state (the request sent and every log record) and give the same result, except
  that the message of an unsupported order type repeats the order type as each call
  spelled it. In a request that is sent, symbol, side and type are the images of the
  arguments under \<open>str.upper\<close>.
\<close>

theorem case_insensitive_up_to_message:
  assumes "str_upper w symbol' = str_upper w symbol" and "str_upper w side' = str_upper w side"
    and "str_upper w order_type' = str_upper w order_type"
  shows "snd (place_order w symbol side order_type quantity price time_in_force st) =
           snd (place_order w symbol' side' order_type' quantity price time_in_force st) \<and>
         (fst (place_order w symbol side order_type quantity price time_in_force st) =
            fst (place_order w symbol' side' order_type' quantity price time_in_force st) \<or>
          fst (place_order w symbol side order_type quantity price time_in_force st) =
            Inl (ValueError (''Unsupported order type: '' @ order_type)) \<and>
          fst (place_order w symbol' side' order_type' quantity price time_in_force st) =
            Inl (ValueError (''Unsupported order type: '' @ order_type'))) \<and>
         (\<forall>pl. rpc_calls
                 (snd (place_order w symbol side order_type quantity price time_in_force st)) =
                 rpc_calls st @ [pl] \<longrightarrow>
               map_of pl ''symbol'' = Some (JStr (str_upper w symbol)) \<and>
               map_of pl ''side'' = Some (JStr (str_upper w side)) \<and>
               map_of pl ''type'' = Some (JStr (str_upper w order_type)))"
proof (cases "str_upper w order_type = ORDER_TYPE_LIMIT")
  case True
  show ?thesis
  proof (cases price)
    case None
    with True assms show ?thesis
      by (simp add: place_order_limit_none)
  next
    case (Some p)
    with True assms show ?thesis
      by (simp add: place_order_limit_some rpc_calls_send_order ORDER_TYPE_LIMIT_def)
  qed
next
  case notlimit: False
  show ?thesis
  proof (cases "str_upper w order_type = ORDER_TYPE_MARKET")
    case True
    with assms show ?thesis
      by (simp add: place_order_market rpc_calls_send_order ORDER_TYPE_MARKET_def)
  next
    case False
    with notlimit assms show ?thesis
      by (simp add: place_order_unsupported)
  qed
qed

theorem case_insensitive_up_to_message_witness:
  "str_upper world_accepting ''ETHUSDT'' = str_upper world_accepting ''ethusdt'' \<and>
   str_upper world_accepting ''SELL'' = str_upper world_accepting ''sell'' \<and>
   str_upper world_accepting ''LIMIT'' = str_upper world_accepting ''limit'' \<and>
   place_order world_accepting ''ethusdt'' ''sell'' ''limit'' (1 / 100) (Some 2000) None
     init_state =
   place_order world_accepting ''ETHUSDT'' ''SELL'' ''LIMIT'' (1 / 100) (Some 2000) None
     init_state"
proof -
  have h: "str_upper world_accepting ''ETHUSDT'' = str_upper world_accepting ''ethusdt''"
    "str_upper world_accepting ''SELL'' = str_upper world_accepting ''sell''"
    "str_upper world_accepting ''LIMIT'' = str_upper world_accepting ''limit''"
    by (simp_all add: ascii_upper_examples)
  have u: "fst (place_order world_accepting ''ethusdt'' ''sell'' ''limit'' (1 / 100) (Some 2000)
      None init_state) \<noteq> Inl (ValueError (''Unsupported order type: '' @ ''limit''))"
    by (simp add: place_order_limit_some ORDER_TYPE_LIMIT_def ascii_upper_examples
        fst_send_order world_accepting_def)
  from case_insensitive_up_to_message [OF h, of "1 / 100" "Some 2000" None init_state] u
  have "place_order world_accepting ''ethusdt'' ''sell'' ''limit'' (1 / 100) (Some 2000) None
     init_state =
   place_order world_accepting ''ETHUSDT'' ''SELL'' ''LIMIT'' (1 / 100) (Some 2000) None
     init_state"
    by (auto simp: prod_eq_iff)
  with h show ?thesis by simp
qed

text \<open>
  The order types \<open>stop\<close> and \<open>STOP\<close> have the same image under \<open>str.upper\<close> and are
  rejected with different messages.
\<close>

theorem unsupported_message_keeps_case_counterexample:
  "str_upper world_accepting ''stop'' = str_upper world_accepting ''STOP'' \<and>
   fst (place_order world_accepting ''BTCUSDT'' ''BUY'' ''stop'' (1 / 1000) None None init_state)
     \<noteq>
   fst (place_order world_accepting ''BTCUSDT'' ''BUY'' ''STOP'' (1 / 1000) None None init_state)"
  by (simp add: place_order_unsupported ascii_upper_examples ORDER_TYPE_LIMIT_def
      ORDER_TYPE_MARKET_def)

end
